theory Spec2Isabelle
  imports Complex_Main
begin

section \<open>Data model of \<open>mopidy_raspberry_gpio/frontend.py\<close>\<close>

text \<open>
  The frontend polls GPIO input lines in a background loop, detects edges on button
  lines and level changes on rotary-encoder lines, and turns them into calls on the
  Mopidy core. The embedding threads one \<open>world\<close> record through every method: the
  attributes of \<open>self\<close>, the hardware, the Mopidy core and a trace of what was done.
  An exception is a value of \<open>exn\<close>; a method returns \<open>(exn + 'a) \<times> world\<close>, so the
  effects made before a raise are kept.
\<close>

datatype level = LOW | HIGH
  \<comment> \<open>\<open>GPIO.LOW\<close> and \<open>GPIO.HIGH\<close>, the two values \<open>GPIO.input\<close> returns\<close>

type_synonym pin = int

datatype pyval = PInt int | PStr string
  \<comment> \<open>the values found in an options dict\<close>

type_synonym opts = "string \<Rightarrow> pyval option"

record settings =
  event :: string
  active :: string
  bouncetime :: int
  options :: opts

datatype exn =
    AttributeError string
  | KeyError
  | RuntimeError string
  | TypeError
  | ValueError
  | OtherError string

datatype playback_state = STOPPED | PLAYING | PAUSED

type_synonym track = string

datatype core_cmd =
    GetState | Play | Pause | Stop | Next | Previous
  | GetVolume | SetVolume int
  | Lookup "pyval option"
  | TracklistClear | TracklistAdd "track list"

datatype log_msg =
    RotaryEvent pin string
  | GpioEvent pin string opts

datatype action =
    Input pin
  | Info log_msg
  | Dispatch string opts
  | Call core_cmd
  | Sleep rat

text \<open>
  The trace records, in the order of execution: \<open>Input p\<close> for a call of
  \<open>GPIO.input(p)\<close>, \<open>Info m\<close> for a call of \<open>logger.info\<close>, \<open>Dispatch ev config\<close> for
  the entry into \<open>dispatch_input(ev, config)\<close>, \<open>Call c\<close> for a call on the Mopidy core
  and \<open>Sleep d\<close> for a call of \<open>time.sleep(d)\<close>, with \<open>d\<close> in seconds.
\<close>

text \<open>
  The Mopidy core is an external collaborator. Its reference model keeps what the
  handlers read and write: the playback state, the mixer volume (\<open>None\<close> when the mixer
  does not know it), the playlists by URI and the tracklist. The frontend holds an
  actor proxy of the core: a call returns a future, and only the three calls whose
  future the handlers resolve with \<open>.get()\<close> (the playback state, the volume, the
  playlist lookup) give a value back. The mixer takes a volume in \<open>[0, 100]\<close> only and
  leaves its volume as it is otherwise; a lookup that finds no playlist gives \<open>None\<close>.
\<close>

record core =
  pb_state :: playback_state
  volume :: "int option"
  playlists :: "string \<Rightarrow> track list option"
  tracklist :: "track list"

text \<open>
  Modelled from the spec: the class \<open>RotEncoder\<close> of \<open>rotencoder.py\<close>, which
  \<open>frontend.py\<close> imports and which is not among the sources. A rotary group has its
  member lines in the order they were declared (the first is phase A, the second
  phase B), the event of each member line, and its 2-bit quadrature state
  \<open>(levelA, levelB)\<close>.
\<close>

record rot_encoder =
  pins :: "pin list"
  events :: "string list"
  quad :: "level \<times> level"

record world =
  pin_settings :: "(pin \<times> settings) list"
  rot_encoders :: "(pyval \<times> rot_encoder) list"
  last_states :: "pin \<Rightarrow> level option"
  stop_polling :: "nat \<Rightarrow> bool"
  checks :: nat
  gpio :: "nat \<Rightarrow> pin \<Rightarrow> exn + level"
  reads :: nat
  mopidy :: core
  trace :: "action list"

text \<open>
  \<open>pin_settings\<close> and \<open>rot_encoders\<close> are dicts in insertion order (the loop and
  \<open>find_pin_rotenc\<close> iterate them). The hardware and the other thread are oracles:
  \<open>gpio w n p\<close> is what the \<open>n\<close>-th call of \<open>GPIO.input\<close> returns when it reads pin
  \<open>p\<close>, \<open>stop_polling w k\<close> is what the \<open>k\<close>-th call of \<open>_stop_polling.is_set()\<close>
  returns.
\<close>

section \<open>The Mopidy core\<close>

fun core_apply :: "core_cmd \<Rightarrow> core \<Rightarrow> core" where
  "core_apply Play c = c\<lparr>pb_state := PLAYING\<rparr>"
| "core_apply Pause c = c\<lparr>pb_state := PAUSED\<rparr>"
| "core_apply Stop c = c\<lparr>pb_state := STOPPED\<rparr>"
| "core_apply (SetVolume v) c = (if 0 \<le> v \<and> v \<le> 100 then c\<lparr>volume := Some v\<rparr> else c)"
| "core_apply TracklistClear c = c\<lparr>tracklist := []\<rparr>"
| "core_apply (TracklistAdd ts) c = c\<lparr>tracklist := tracklist c @ ts\<rparr>"
| "core_apply _ c = c"

definition call :: "core_cmd \<Rightarrow> world \<Rightarrow> world" where
  "call cmd w = w\<lparr>mopidy := core_apply cmd (mopidy w), trace := trace w @ [Call cmd]\<rparr>"

definition lookup_playlist :: "core \<Rightarrow> pyval option \<Rightarrow> track list option" where
  "lookup_playlist c uri = (case uri of Some (PStr u) \<Rightarrow> playlists c u | _ \<Rightarrow> None)"

section \<open>Python's \<open>int()\<close>\<close>

definition is_digit :: "char \<Rightarrow> bool" where
  "is_digit c = (48 \<le> (of_char c :: nat) \<and> (of_char c :: nat) \<le> 57)"

definition digit_val :: "char \<Rightarrow> int" where
  "digit_val c = int (of_char c) - 48"

definition is_space :: "char \<Rightarrow> bool" where
  "is_space c = ((of_char c :: nat) \<in> {9, 10, 11, 12, 13, 28, 29, 30, 31, 32})"

fun digits_from :: "int \<Rightarrow> string \<Rightarrow> int option" where
  "digits_from acc [] = Some acc"
| "digits_from acc (c # cs) =
     (if is_digit c then digits_from (10 * acc + digit_val c) cs
      else if c = CHR ''_'' then
        (case cs of
           [] \<Rightarrow> None
         | d # _ \<Rightarrow> if is_digit d then digits_from acc cs else None)
      else None)"

definition parse_nat :: "string \<Rightarrow> int option" where
  "parse_nat s =
     (case s of
        [] \<Rightarrow> None
      | c # cs \<Rightarrow> if is_digit c then digits_from (digit_val c) cs else None)"

definition strip :: "string \<Rightarrow> string" where
  "strip s = rev (dropWhile is_space (rev (dropWhile is_space s)))"

definition py_int :: "pyval \<Rightarrow> exn + int" where
  "py_int v =
     (case v of
        PInt n \<Rightarrow> Inr n
      | PStr s \<Rightarrow>
          (case strip s of
             [] \<Rightarrow> Inl ValueError
           | c # cs \<Rightarrow>
               (if c = CHR ''-'' then
                  (case parse_nat cs of None \<Rightarrow> Inl ValueError | Some n \<Rightarrow> Inr (- n))
                else if c = CHR ''+'' then
                  (case parse_nat cs of None \<Rightarrow> Inl ValueError | Some n \<Rightarrow> Inr n)
                else
                  (case parse_nat (c # cs) of None \<Rightarrow> Inl ValueError | Some n \<Rightarrow> Inr n))))"

section \<open>The handlers\<close>

type_synonym 'a io = "world \<Rightarrow> (exn + 'a) \<times> world"

definition handle_play_pause :: "opts \<Rightarrow> unit io" where
  "handle_play_pause config w =
     (let w1 = call GetState w in
      if pb_state (mopidy w1) = PLAYING then (Inr (), call Pause w1)
      else (Inr (), call Play w1))"

definition handle_play_stop :: "opts \<Rightarrow> unit io" where
  "handle_play_stop config w =
     (let w1 = call GetState w in
      if pb_state (mopidy w1) = PLAYING then (Inr (), call Stop w1)
      else (Inr (), call Play w1))"

definition handle_next :: "opts \<Rightarrow> unit io" where
  "handle_next config w = (Inr (), call Next w)"

definition handle_prev :: "opts \<Rightarrow> unit io" where
  "handle_prev config w = (Inr (), call Previous w)"

definition get_step :: "opts \<Rightarrow> pyval" where
  "get_step config = (case config ''step'' of None \<Rightarrow> PInt 5 | Some v \<Rightarrow> v)"

definition handle_volume_up :: "opts \<Rightarrow> unit io" where
  "handle_volume_up config w =
     (case py_int (get_step config) of
        Inl e \<Rightarrow> (Inl e, w)
      | Inr step \<Rightarrow>
          (let w1 = call GetVolume w in
           case volume (mopidy w1) of
             None \<Rightarrow> (Inl TypeError, w1)
           | Some v \<Rightarrow> (Inr (), call (SetVolume (min (v + step) 100)) w1)))"

definition handle_volume_down :: "opts \<Rightarrow> unit io" where
  "handle_volume_down config w =
     (case py_int (get_step config) of
        Inl e \<Rightarrow> (Inl e, w)
      | Inr step \<Rightarrow>
          (let w1 = call GetVolume w in
           case volume (mopidy w1) of
             None \<Rightarrow> (Inl TypeError, w1)
           | Some v \<Rightarrow> (Inr (), call (SetVolume (max (v - step) 0)) w1)))"

text \<open>
  \<open>playlist.tracks\<close> is evaluated in the third statement of \<open>handle_playlist\<close>,
  after the tracklist was cleared: when the lookup gave \<open>None\<close>, the
  \<open>AttributeError\<close> is raised there.
\<close>

definition handle_playlist :: "opts \<Rightarrow> unit io" where
  "handle_playlist config w =
     (let w1 = call (Lookup (config ''uri'')) w in
      case lookup_playlist (mopidy w1) (config ''uri'') of
        None \<Rightarrow> (Inl (AttributeError ''tracks''), call TracklistClear w1)
      | Some ts \<Rightarrow>
          (Inr (), call Play (call (TracklistAdd ts) (call TracklistClear w1))))"

section \<open>Dispatch\<close>

definition handler_of :: "string \<Rightarrow> (opts \<Rightarrow> unit io) option" where
  "handler_of ev =
     (if ev = ''play_pause'' then Some handle_play_pause
      else if ev = ''play_stop'' then Some handle_play_stop
      else if ev = ''next'' then Some handle_next
      else if ev = ''prev'' then Some handle_prev
      else if ev = ''volume_up'' then Some handle_volume_up
      else if ev = ''volume_down'' then Some handle_volume_down
      else if ev = ''playlist'' then Some handle_playlist
      else None)"

definition call_handler :: "string \<Rightarrow> opts \<Rightarrow> unit io" where
  "call_handler ev config w =
     (case handler_of ev of
        None \<Rightarrow> (Inl (AttributeError (''handle_'' @ ev)), w)
      | Some h \<Rightarrow> h config w)"

definition no_handler :: "string \<Rightarrow> exn" where
  "no_handler ev = RuntimeError (''Could not find input handler for event: '' @ ev)"

definition dispatch_input :: "string \<Rightarrow> opts \<Rightarrow> unit io" where
  "dispatch_input ev config w =
     (case call_handler ev config (w\<lparr>trace := trace w @ [Dispatch ev config]\<rparr>) of
        (Inl (AttributeError a), w') \<Rightarrow> (Inl (no_handler ev), w')
      | r \<Rightarrow> r)"

section \<open>The rotary encoder\<close>

text \<open>
  Modelled from the spec: the Quadrature Decoder (\<open>RotEncoder.get_event\<close> of
  \<open>rotencoder.py\<close>, not among the sources). Its state is \<open>(levelA, levelB)\<close>, one of
  the four states of the Gray cycle 00, 01, 11, 10, which is clockwise in this order
  and counter-clockwise in the reverse order. The adjacency table holds the forward and
  the backward steps of the cycle. A new state adjacent to the previous one gives one
  directional event; any other new state gives none; the new state is kept in both
  cases.
\<close>

datatype direction = Clockwise | CounterClockwise

definition gray_cycle :: "(level \<times> level) list" where
  "gray_cycle = [(LOW, LOW), (LOW, HIGH), (HIGH, HIGH), (HIGH, LOW)]"

definition adjacency :: "(((level \<times> level) \<times> (level \<times> level)) \<times> direction) list" where
  "adjacency =
     map (\<lambda>(s, t). ((s, t), Clockwise)) (zip gray_cycle (rotate1 gray_cycle)) @
     map (\<lambda>(s, t). ((t, s), CounterClockwise)) (zip gray_cycle (rotate1 gray_cycle))"

definition decode :: "level \<times> level \<Rightarrow> level \<times> level \<Rightarrow> direction option" where
  "decode prev new = map_of adjacency (prev, new)"

definition GPIO_input :: "pin \<Rightarrow> level io" where
  "GPIO_input p w =
     (gpio w (reads w) p, w\<lparr>reads := Suc (reads w), trace := trace w @ [Input p]\<rparr>)"

fun store_encoder ::
  "pyval \<Rightarrow> rot_encoder \<Rightarrow> (pyval \<times> rot_encoder) list \<Rightarrow> (pyval \<times> rot_encoder) list" where
  "store_encoder k e [] = []"
| "store_encoder k e ((k', e') # es) =
     (if k' = k then (k', e) # es else (k', e') # store_encoder k e es)"

text \<open>
  Modelled from the spec: \<open>get_event\<close> samples the two member lines, decodes the
  step from the stored state to the sampled one and stores the sampled state. A
  clockwise step gives the event of the phase-A line, a counter-clockwise step the
  event of the phase-B line. A group without two member lines reports no event.
\<close>

definition get_event :: "pyval \<Rightarrow> string option io" where
  "get_event rid w =
     (case map_of (rot_encoders w) rid of
        None \<Rightarrow> (Inl KeyError, w)
      | Some enc \<Rightarrow>
          (case (pins enc, events enc) of
             ([a, b], [ea, eb]) \<Rightarrow>
               (case GPIO_input a w of
                  (Inl e, w1) \<Rightarrow> (Inl e, w1)
                | (Inr la, w1) \<Rightarrow>
                    (case GPIO_input b w1 of
                       (Inl e, w2) \<Rightarrow> (Inl e, w2)
                     | (Inr lb, w2) \<Rightarrow>
                         (Inr (case decode (quad enc) (la, lb) of
                                 None \<Rightarrow> None
                               | Some Clockwise \<Rightarrow> Some ea
                               | Some CounterClockwise \<Rightarrow> Some eb),
                          w2\<lparr>rot_encoders :=
                               store_encoder rid (enc\<lparr>quad := (la, lb)\<rparr>) (rot_encoders w2)\<rparr>)))
           | _ \<Rightarrow> (Inr None, w)))"

section \<open>The polling loop\<close>

fun find_pin_rotenc_in :: "pin \<Rightarrow> (pyval \<times> rot_encoder) list \<Rightarrow> pyval option" where
  "find_pin_rotenc_in p [] = None"
| "find_pin_rotenc_in p ((k, e) # es) =
     (if p \<in> set (pins e) then Some k else find_pin_rotenc_in p es)"

definition find_pin_rotenc :: "pin \<Rightarrow> world \<Rightarrow> pyval option" where
  "find_pin_rotenc p w = find_pin_rotenc_in p (rot_encoders w)"

definition truthy :: "string option \<Rightarrow> bool" where
  "truthy ev = (case ev of None \<Rightarrow> False | Some s \<Rightarrow> s \<noteq> [])"

definition log_info :: "log_msg \<Rightarrow> world \<Rightarrow> world" where
  "log_info m w = w\<lparr>trace := trace w @ [Info m]\<rparr>"

definition gpio_event :: "pin \<Rightarrow> unit io" where
  "gpio_event p w =
     (case map_of (pin_settings w) p of
        None \<Rightarrow> (Inl KeyError, w)
      | Some st \<Rightarrow>
          (case (case find_pin_rotenc p w of
                   None \<Rightarrow> (Inr (Some (event st)), w)
                 | Some rid \<Rightarrow> get_event rid w) of
             (Inl e, w1) \<Rightarrow> (Inl e, w1)
           | (Inr ev, w1) \<Rightarrow>
               (if truthy ev then
                  dispatch_input (the ev) (options st)
                    (log_info (GpioEvent p (the ev) (options st)) w1)
                else (Inr (), w1))))"

definition sleep :: "rat \<Rightarrow> unit io" where
  "sleep d w = (if d < 0 then (Inl ValueError, w) else (Inr (), w\<lparr>trace := trace w @ [Sleep d]\<rparr>))"

definition rotary_change :: "pin \<Rightarrow> settings \<Rightarrow> unit io" where
  "rotary_change p st w =
     (case options st ''rotenc_id'' of
        None \<Rightarrow> (Inl KeyError, w)
      | Some rid \<Rightarrow>
          (case map_of (rot_encoders w) rid of
             None \<Rightarrow> (Inl KeyError, w)
           | Some enc \<Rightarrow>
               (case get_event rid w of
                  (Inl e, w1) \<Rightarrow> (Inl e, w1)
                | (Inr ev, w1) \<Rightarrow>
                    (if truthy ev then
                       dispatch_input (the ev) (options st)
                         (log_info (RotaryEvent p (the ev)) w1)
                     else (Inr (), w1)))))"

definition is_edge :: "settings \<Rightarrow> level \<Rightarrow> level \<Rightarrow> bool" where
  "is_edge st lastv state =
     (let active_low = (active st \<noteq> ''active_high'') in
      (active_low \<and> lastv = HIGH \<and> state = LOW) \<or>
      (\<not> active_low \<and> lastv = LOW \<and> state = HIGH))"

definition set_last :: "pin \<Rightarrow> level \<Rightarrow> world \<Rightarrow> world" where
  "set_last p state w = w\<lparr>last_states := (last_states w)(p \<mapsto> state)\<rparr>"

definition button_line :: "pin \<Rightarrow> settings \<Rightarrow> level \<Rightarrow> level \<Rightarrow> unit io" where
  "button_line p st lastv state w =
     (if is_edge st lastv state then
        (case gpio_event p w of
           (Inl e, w1) \<Rightarrow> (Inl e, w1)
         | (Inr u, w1) \<Rightarrow>
             (case sleep (of_int (bouncetime st) / 1000) w1 of
                (Inl e, w2) \<Rightarrow> (Inl e, w2)
              | (Inr u', w2) \<Rightarrow> (Inr (), set_last p state w2)))
      else (Inr (), set_last p state w))"

definition rotary_line :: "pin \<Rightarrow> settings \<Rightarrow> level \<Rightarrow> level \<Rightarrow> unit io" where
  "rotary_line p st lastv state w =
     (case (if state \<noteq> lastv then rotary_change p st w else (Inr (), w)) of
        (Inl e, w1) \<Rightarrow> (Inl e, w1)
      | (Inr u, w1) \<Rightarrow> (Inr (), set_last p state w1))"

definition poll_line :: "pin \<times> settings \<Rightarrow> unit io" where
  "poll_line l w =
     (case l of (p, st) \<Rightarrow>
        (case GPIO_input p w of
           (Inl e, w1) \<Rightarrow> (Inl e, w1)
         | (Inr state, w1) \<Rightarrow>
             (case last_states w1 p of
                None \<Rightarrow> (Inl KeyError, w1)
              | Some lastv \<Rightarrow>
                  (if options st ''rotenc_id'' \<noteq> None then rotary_line p st lastv state w1
                   else button_line p st lastv state w1))))"

fun poll_pass :: "(pin \<times> settings) list \<Rightarrow> unit io" where
  "poll_pass [] w = (Inr (), w)"
| "poll_pass (l # ls) w =
     (case poll_line l w of
        (Inl e, w1) \<Rightarrow> (Inl e, w1)
      | (Inr u, w1) \<Rightarrow> poll_pass ls w1)"

text \<open>
  \<open>_poll_loop\<close> may run for ever: the fuel is the number of times the loop condition
  is evaluated, and \<open>None\<close> says that the loop is still running when the fuel is spent.
  \<open>Some (Inr ())\<close> is the normal return (the stop event was seen), \<open>Some (Inl e)\<close> the
  exception that ended the loop and its thread.
\<close>

fun poll_loop :: "nat \<Rightarrow> world \<Rightarrow> (exn + unit) option \<times> world" where
  "poll_loop 0 w = (None, w)"
| "poll_loop (Suc n) w =
     (let w0 = w\<lparr>checks := Suc (checks w)\<rparr> in
      if stop_polling w (checks w) then (Some (Inr ()), w0)
      else
        (case poll_pass (pin_settings w0) w0 of
           (Inl e, w1) \<Rightarrow> (Some (Inl e), w1)
         | (Inr u, w1) \<Rightarrow>
             (case sleep (5 / 10000) w1 of
                (Inl e, w2) \<Rightarrow> (Some (Inl e), w2)
              | (Inr u', w2) \<Rightarrow> poll_loop n w2)))"

section \<open>Reading a trace\<close>

fun is_call :: "action \<Rightarrow> bool" where
  "is_call (Call c) = True"
| "is_call _ = False"

fun is_sleep :: "action \<Rightarrow> bool" where
  "is_sleep (Sleep d) = True"
| "is_sleep _ = False"

fun dispatched :: "action list \<Rightarrow> (string \<times> opts) list" where
  "dispatched [] = []"
| "dispatched (Dispatch ev config # xs) = (ev, config) # dispatched xs"
| "dispatched (_ # xs) = dispatched xs"

fun sleeps :: "action list \<Rightarrow> rat list" where
  "sleeps [] = []"
| "sleeps (Sleep d # xs) = d # sleeps xs"
| "sleeps (_ # xs) = sleeps xs"

text \<open>
  What the polling never changes: the configured lines, and which pins belong to which
  rotary group.
\<close>

definition wiring :: "world \<Rightarrow> (pin \<times> settings) list \<times> (pyval \<times> pin list) list" where
  "wiring w = (pin_settings w, map (\<lambda>(k, e). (k, pins e)) (rot_encoders w))"

text \<open>The clockwise successor of a quadrature state, as the spec writes the cycle.\<close>

fun clockwise_of :: "level \<times> level \<Rightarrow> level \<times> level" where
  "clockwise_of (LOW, LOW) = (LOW, HIGH)"
| "clockwise_of (LOW, HIGH) = (HIGH, HIGH)"
| "clockwise_of (HIGH, HIGH) = (HIGH, LOW)"
| "clockwise_of (HIGH, LOW) = (LOW, LOW)"

text \<open>
  The decoder over a run of samples: each sample is decoded against the one before
  it, which is the state the decoder has stored.
\<close>

fun decode_run :: "level \<times> level \<Rightarrow> (level \<times> level) list \<Rightarrow> direction option list" where
  "decode_run s [] = []"
| "decode_run s (t # ts) = decode s t # decode_run t ts"

section \<open>Concrete inputs\<close>

definition jazz_core :: "int \<Rightarrow> core" where
  "jazz_core v =
     \<lparr>pb_state = STOPPED, volume = Some v,
      playlists = [''m3u:jazz'' \<mapsto> [''file:a'', ''file:b'']],
      tracklist = [''file:old'']\<rparr>"

definition button :: "string \<Rightarrow> string \<Rightarrow> settings" where
  "button ev pol = \<lparr>event = ev, active = pol, bouncetime = 50, options = Map.empty\<rparr>"

definition rig ::
  "(pin \<times> settings) list \<Rightarrow> (pin \<Rightarrow> level option) \<Rightarrow> (nat \<Rightarrow> pin \<Rightarrow> exn + level) \<Rightarrow> int \<Rightarrow> world" where
  "rig ls lst hw v =
     \<lparr>pin_settings = ls, rot_encoders = [], last_states = lst,
      stop_polling = (\<lambda>k. False), checks = 0, gpio = hw, reads = 0,
      mopidy = jazz_core v, trace = []\<rparr>"

definition rotary :: "string \<Rightarrow> settings" where
  "rotary ev =
     \<lparr>event = ev, active = ''active_low'', bouncetime = 50,
      options = [''rotenc_id'' \<mapsto> PStr ''vol'']\<rparr>"

definition rotary_rig :: world where
  "rotary_rig =
     \<lparr>pin_settings = [(5, rotary ''volume_up''), (6, rotary ''volume_down'')],
      rot_encoders =
        [(PStr ''vol'',
          \<lparr>pins = [5, 6], events = [''volume_up'', ''volume_down''], quad = (LOW, LOW)\<rparr>)],
      last_states = [5 \<mapsto> LOW, 6 \<mapsto> LOW],
      stop_polling = (\<lambda>k. False), checks = 0,
      gpio = (\<lambda>n p. Inr (if p = 6 then HIGH else LOW)), reads = 0,
      mopidy = jazz_core 50, trace = []\<rparr>"


definition flaky :: "(pin \<times> settings) list \<Rightarrow> world" where
  "flaky ls =
     rig ls [17 \<mapsto> HIGH, 27 \<mapsto> HIGH]
       (\<lambda>n p. if p = 17 then Inl (OtherError ''read failed'') else Inr HIGH) 50"

definition pressed :: "(pin \<times> settings) list \<Rightarrow> world" where
  "pressed ls =
     rig ls [17 \<mapsto> HIGH, 27 \<mapsto> HIGH] (\<lambda>n p. Inr (if p = 17 then LOW else HIGH)) 50"

section \<open>What the handlers and the dispatch add to the trace\<close>

lemmas handler_defs =
  handle_play_pause_def handle_play_stop_def handle_next_def handle_prev_def
  handle_volume_up_def handle_volume_down_def handle_playlist_def

lemma trace_call [simp]: "trace (call c w) = trace w @ [Call c]"
  by (simp add: call_def)

lemma mopidy_call [simp]: "mopidy (call c w) = core_apply c (mopidy w)"
  by (simp add: call_def)

lemma call_handler_trace:
  "\<exists>cs. trace (snd (call_handler ev config w)) = trace w @ cs \<and> list_all is_call cs"
  by (auto simp: call_handler_def handler_of_def handler_defs Let_def
      split: sum.splits option.splits)


lemma dispatch_input_trace:
  "\<exists>cs. trace (snd (dispatch_input ev config w)) = trace w @ Dispatch ev config # cs \<and>
     list_all is_call cs"
proof -
  let ?w = "w\<lparr>trace := trace w @ [Dispatch ev config]\<rparr>"
  obtain cs where "trace (snd (call_handler ev config ?w)) = trace ?w @ cs"
    and "list_all is_call cs"
    using call_handler_trace by blast
  then show ?thesis
    by (auto simp: dispatch_input_def split: prod.splits sum.splits exn.splits)
qed


lemma sleeps_append: "sleeps (xs @ ys) = sleeps xs @ sleeps ys"
  by (induction xs rule: sleeps.induct) simp_all


lemma sleeps_calls: "list_all is_call cs \<Longrightarrow> sleeps cs = []"
  by (induction cs rule: sleeps.induct) simp_all

section \<open>The volume handlers\<close>




section \<open>The playlist handler\<close>

text \<open>
  C7. When the options name a playlist URI that the core knows, the \<open>playlist\<close> event
  returns normally after exactly these calls, in this order: the lookup, the clearing
  of the tracklist, the adding of the playlist's tracks, the start of playback. The
  tracklist is then the playlist's tracks, in order, whatever it held before, and the
  core is playing.
\<close>

theorem playlist_replaces_tracklist:
  assumes "config ''uri'' = Some (PStr u)"
    and "playlists (mopidy w) u = Some ts"
  shows "fst (dispatch_input ''playlist'' config w) = Inr () \<and>
    trace (snd (dispatch_input ''playlist'' config w)) =
      trace w @ [Dispatch ''playlist'' config, Call (Lookup (Some (PStr u))),
                 Call TracklistClear, Call (TracklistAdd ts), Call Play] \<and>
    tracklist (mopidy (snd (dispatch_input ''playlist'' config w))) = ts \<and>
    pb_state (mopidy (snd (dispatch_input ''playlist'' config w))) = PLAYING"
  using assms
  by (simp add: dispatch_input_def call_handler_def handler_of_def handle_playlist_def
      Let_def lookup_playlist_def)

theorem playlist_replaces_tracklist_witness:
  "tracklist (mopidy (rig [] Map.empty (\<lambda>n p. Inr LOW) 50)) = [''file:old''] \<and>
   tracklist (mopidy (snd (dispatch_input ''playlist'' [''uri'' \<mapsto> PStr ''m3u:jazz'']
      (rig [] Map.empty (\<lambda>n p. Inr LOW) 50)))) = [''file:a'', ''file:b''] \<and>
   pb_state (mopidy (snd (dispatch_input ''playlist'' [''uri'' \<mapsto> PStr ''m3u:jazz'']
      (rig [] Map.empty (\<lambda>n p. Inr LOW) 50)))) = PLAYING"
  using playlist_replaces_tracklist [of "[''uri'' \<mapsto> PStr ''m3u:jazz'']" "''m3u:jazz''"
      "rig [] Map.empty (\<lambda>n p. Inr LOW) 50" "[''file:a'', ''file:b'']"]
  by (simp add: rig_def jazz_core_def)

section \<open>The dispatch and \<open>AttributeError\<close>\<close>



section \<open>The polling keeps the wiring\<close>

lemma find_pin_rotenc_in_wiring:
  "map (\<lambda>(k, e). (k, pins e)) es = map (\<lambda>(k, e). (k, pins e)) es' \<Longrightarrow>
   find_pin_rotenc_in p es = find_pin_rotenc_in p es'"
proof (induction es arbitrary: es')
  case Nil
  then show ?case by simp
next
  case (Cons x es)
  then obtain y ys where "es' = y # ys" by (cases es') auto
  with Cons show ?case by (cases x; cases y) auto
qed

lemma wiring_find: "wiring w' = wiring w \<Longrightarrow> find_pin_rotenc p w' = find_pin_rotenc p w"
  unfolding wiring_def find_pin_rotenc_def by (rule find_pin_rotenc_in_wiring) simp

lemma wiring_settings: "wiring w' = wiring w \<Longrightarrow> pin_settings w' = pin_settings w"
  by (simp add: wiring_def)

lemma store_encoder_pins:
  "map_of es k = Some enc \<Longrightarrow> pins enc' = pins enc \<Longrightarrow>
   map (\<lambda>(k, e). (k, pins e)) (store_encoder k enc' es) = map (\<lambda>(k, e). (k, pins e)) es"
  by (induction es) (auto split: if_splits)

lemma wiring_call_handler: "wiring (snd (call_handler ev config w)) = wiring w"
  by (simp add: wiring_def call_handler_def handler_of_def handler_defs Let_def call_def
      split: sum.splits option.splits)

lemma wiring_dispatch_input: "wiring (snd (dispatch_input ev config w)) = wiring w"
proof -
  let ?w = "w\<lparr>trace := trace w @ [Dispatch ev config]\<rparr>"
  have "wiring (snd (call_handler ev config ?w)) = wiring ?w"
    by (rule wiring_call_handler)
  then show ?thesis
    by (auto simp: dispatch_input_def wiring_def split: prod.splits sum.splits exn.splits)
qed

lemma wiring_get_event: "wiring (snd (get_event rid w)) = wiring w"
  by (simp add: get_event_def GPIO_input_def wiring_def store_encoder_pins
      split: option.splits list.splits prod.splits sum.splits)

lemma wiring_log_info: "wiring (log_info m w) = wiring w"
  by (simp add: wiring_def log_info_def)

lemma wiring_set_last: "wiring (set_last p s w) = wiring w"
  by (simp add: wiring_def set_last_def)

lemma wiring_sleep: "wiring (snd (sleep d w)) = wiring w"
  by (simp add: wiring_def sleep_def)

lemma wiring_gpio_event: "wiring (snd (gpio_event p w)) = wiring w"
proof (cases "map_of (pin_settings w) p")
  case None
  then show ?thesis by (simp add: gpio_event_def)
next
  case st: (Some st)
  show ?thesis
  proof (cases "find_pin_rotenc p w")
    case None
    with st show ?thesis
      by (simp add: gpio_event_def wiring_dispatch_input wiring_log_info)
  next
    case (Some rid)
    obtain r w1 where g: "get_event rid w = (r, w1)" by (cases "get_event rid w")
    then have "wiring w1 = wiring w" using wiring_get_event [of rid w] by simp
    with st Some g show ?thesis
      by (cases r) (simp_all add: gpio_event_def wiring_dispatch_input wiring_log_info)
  qed
qed

lemma wiring_rotary_change: "wiring (snd (rotary_change p st w)) = wiring w"
proof (cases "options st ''rotenc_id''")
  case None
  then show ?thesis by (simp add: rotary_change_def)
next
  case rid: (Some rid)
  obtain r w1 where g: "get_event rid w = (r, w1)" by (cases "get_event rid w")
  then have "wiring w1 = wiring w" using wiring_get_event [of rid w] by simp
  with rid g show ?thesis
    by (cases r)
      (simp_all add: rotary_change_def wiring_dispatch_input wiring_log_info split: option.splits)
qed

lemma wiring_rotary_line: "wiring (snd (rotary_line p st lastv state w)) = wiring w"
proof -
  obtain r w1 where rc: "rotary_change p st w = (r, w1)" by (cases "rotary_change p st w")
  then have "wiring w1 = wiring w" using wiring_rotary_change [of p st w] by simp
  with rc show ?thesis
    by (cases r) (simp_all add: rotary_line_def wiring_set_last)
qed

lemma wiring_button_line: "wiring (snd (button_line p st lastv state w)) = wiring w"
proof (cases "is_edge st lastv state")
  case False
  then show ?thesis by (simp add: button_line_def wiring_set_last)
next
  case True
  obtain r w1 where ge: "gpio_event p w = (r, w1)" by (cases "gpio_event p w")
  then have w1: "wiring w1 = wiring w" using wiring_gpio_event [of p w] by simp
  show ?thesis
  proof (cases r)
    case (Inl e)
    with True ge w1 show ?thesis by (simp add: button_line_def)
  next
    case (Inr u)
    obtain r2 w2 where sl: "sleep (of_int (bouncetime st) / 1000) w1 = (r2, w2)"
      by (cases "sleep (of_int (bouncetime st) / 1000) w1")
    then have "wiring w2 = wiring w1"
      using wiring_sleep [of "of_int (bouncetime st) / 1000" w1] by simp
    with True ge w1 Inr sl show ?thesis
      by (cases r2) (simp_all add: button_line_def wiring_set_last)
  qed
qed

lemma wiring_poll_line: "wiring (snd (poll_line l w)) = wiring w"
proof -
  obtain p st where l: "l = (p, st)" by (cases l)
  let ?w1 = "w\<lparr>reads := Suc (reads w), trace := trace w @ [Input p]\<rparr>"
  have w1: "wiring ?w1 = wiring w" by (simp add: wiring_def)
  show ?thesis
  proof (cases "gpio w (reads w) p")
    case (Inl e)
    with w1 show ?thesis by (simp add: l poll_line_def GPIO_input_def)
  next
    case (Inr state)
    show ?thesis
    proof (cases "last_states w p")
      case None
      with Inr w1 show ?thesis by (simp add: l poll_line_def GPIO_input_def)
    next
      case (Some lastv)
      with Inr w1 show ?thesis
        by (simp add: l poll_line_def GPIO_input_def wiring_rotary_line wiring_button_line)
    qed
  qed
qed

lemma wiring_poll_pass: "wiring (snd (poll_pass ls w)) = wiring w"
proof (induction ls arbitrary: w)
  case Nil
  then show ?case by simp
next
  case (Cons l ls)
  obtain r w1 where pl: "poll_line l w = (r, w1)" by (cases "poll_line l w")
  then have "wiring w1 = wiring w" using wiring_poll_line [of l w] by simp
  with pl Cons show ?case by (cases r) simp_all
qed

section \<open>Where the trace can gain a sleep\<close>

lemma sleeps_none: "list_all (\<lambda>a. \<not> is_sleep a) xs \<Longrightarrow> sleeps xs = []"
  by (induction xs rule: sleeps.induct) simp_all

lemma calls_no_sleep: "list_all is_call cs \<Longrightarrow> list_all (\<lambda>a. \<not> is_sleep a) cs"
  by (induction cs rule: sleeps.induct) simp_all

lemma get_event_trace:
  "\<exists>xs. trace (snd (get_event rid w)) = trace w @ xs \<and> list_all (\<lambda>a. \<not> is_sleep a) xs"
  by (simp add: get_event_def GPIO_input_def
      split: option.splits list.splits prod.splits sum.splits)

lemma dispatch_input_no_sleep:
  "\<exists>xs. trace (snd (dispatch_input ev config w)) = trace w @ xs \<and>
     list_all (\<lambda>a. \<not> is_sleep a) xs"
proof -
  obtain cs where "trace (snd (dispatch_input ev config w)) = trace w @ Dispatch ev config # cs"
    and "list_all is_call cs"
    using dispatch_input_trace by blast
  then have "trace (snd (dispatch_input ev config w)) = trace w @ (Dispatch ev config # cs) \<and>
     list_all (\<lambda>a. \<not> is_sleep a) (Dispatch ev config # cs)"
    by (simp add: calls_no_sleep)
  then show ?thesis by blast
qed

lemma rotary_change_trace:
  "\<exists>xs. trace (snd (rotary_change p st w)) = trace w @ xs \<and> list_all (\<lambda>a. \<not> is_sleep a) xs"
proof (cases "options st ''rotenc_id''")
  case None
  then show ?thesis by (simp add: rotary_change_def)
next
  case rid: (Some rid)
  show ?thesis
  proof (cases "map_of (rot_encoders w) rid")
    case None
    with rid show ?thesis by (simp add: rotary_change_def)
  next
    case enc: (Some enc)
    obtain r w1 where g: "get_event rid w = (r, w1)" by (cases "get_event rid w")
    obtain xs where xs: "trace w1 = trace w @ xs" "list_all (\<lambda>a. \<not> is_sleep a) xs"
      using get_event_trace [of rid w] g by auto
    show ?thesis
    proof (cases r)
      case (Inl e)
      with rid enc g xs show ?thesis
        by (simp add: rotary_change_def)
    next
      case (Inr ev)
      let ?w2 = "log_info (RotaryEvent p (the ev)) w1"
      obtain ys where ys: "trace (snd (dispatch_input (the ev) (options st) ?w2)) = trace ?w2 @ ys"
        "list_all (\<lambda>a. \<not> is_sleep a) ys"
        using dispatch_input_no_sleep by blast
      show ?thesis
      proof (cases "truthy ev")
        case True
        have "trace (snd (rotary_change p st w)) =
            trace w @ (xs @ Info (RotaryEvent p (the ev)) # ys)"
          using rid enc g Inr True ys(1) xs(1) by (simp add: rotary_change_def log_info_def)
        moreover have "list_all (\<lambda>a. \<not> is_sleep a) (xs @ Info (RotaryEvent p (the ev)) # ys)"
          using xs(2) ys(2) by simp
        ultimately show ?thesis by blast
      next
        case False
        with rid enc g Inr xs show ?thesis by (simp add: rotary_change_def)
      qed
    qed
  qed
qed

lemma rotary_line_trace:
  "\<exists>xs. trace (snd (rotary_line p st lastv state w)) = trace w @ xs \<and>
     list_all (\<lambda>a. \<not> is_sleep a) xs"
proof (cases "state \<noteq> lastv")
  case True
  obtain r w1 where rc: "rotary_change p st w = (r, w1)" by (cases "rotary_change p st w")
  obtain xs where "trace w1 = trace w @ xs" "list_all (\<lambda>a. \<not> is_sleep a) xs"
    using rotary_change_trace [of p st w] rc by auto
  with True rc show ?thesis
    by (cases r) (simp_all add: rotary_line_def set_last_def)
next
  case False
  then show ?thesis by (simp add: rotary_line_def set_last_def)
qed

lemma poll_line_rotary_sleeps:
  assumes "options st ''rotenc_id'' \<noteq> None"
  shows "sleeps (trace (snd (poll_line (p, st) w))) = sleeps (trace w)"
proof -
  let ?w1 = "w\<lparr>reads := Suc (reads w), trace := trace w @ [Input p]\<rparr>"
  show ?thesis
  proof (cases "gpio w (reads w) p")
    case (Inl e)
    then show ?thesis by (simp add: poll_line_def GPIO_input_def sleeps_append)
  next
    case (Inr state)
    show ?thesis
    proof (cases "last_states w p")
      case None
      with Inr show ?thesis by (simp add: poll_line_def GPIO_input_def sleeps_append)
    next
      case (Some lastv)
      obtain xs where "trace (snd (rotary_line p st lastv state ?w1)) = trace ?w1 @ xs"
        "list_all (\<lambda>a. \<not> is_sleep a) xs"
        using rotary_line_trace by blast
      with Inr Some assms show ?thesis
        by (simp add: poll_line_def GPIO_input_def sleeps_append sleeps_none)
    qed
  qed
qed

section \<open>Button lines\<close>

lemma gpio_event_button:
  assumes "map_of (pin_settings w) p = Some st" and "find_pin_rotenc p w = None"
    and "event st \<noteq> []"
  shows "gpio_event p w =
    dispatch_input (event st) (options st) (log_info (GpioEvent p (event st) (options st)) w)"
  using assms by (simp add: gpio_event_def truthy_def)

lemma gpio_event_trace:
  "\<exists>xs. trace (snd (gpio_event p w)) = trace w @ xs \<and> list_all (\<lambda>a. \<not> is_sleep a) xs"
proof (cases "map_of (pin_settings w) p")
  case None
  then show ?thesis by (simp add: gpio_event_def)
next
  case st: (Some st)
  define sel where "sel = (case find_pin_rotenc p w of
      None \<Rightarrow> (Inr (Some (event st)), w) | Some rid \<Rightarrow> get_event rid w)"
  obtain r w1 where g: "sel = (r, w1)" by (cases sel)
  have "\<exists>xs. trace (snd sel) = trace w @ xs \<and> list_all (\<lambda>a. \<not> is_sleep a) xs"
    unfolding sel_def using get_event_trace by (simp split: option.splits)
  then obtain xs where xs: "trace w1 = trace w @ xs" "list_all (\<lambda>a. \<not> is_sleep a) xs"
    using g by auto
  have ge: "gpio_event p w = (case sel of (Inl e, w1) \<Rightarrow> (Inl e, w1)
      | (Inr ev, w1) \<Rightarrow> if truthy ev then dispatch_input (the ev) (options st)
          (log_info (GpioEvent p (the ev) (options st)) w1) else (Inr (), w1))"
    using st by (simp add: gpio_event_def sel_def)
  show ?thesis
  proof (cases r)
    case (Inl e)
    with ge g xs show ?thesis by simp
  next
    case (Inr ev)
    let ?w2 = "log_info (GpioEvent p (the ev) (options st)) w1"
    obtain ys where ys: "trace (snd (dispatch_input (the ev) (options st) ?w2)) = trace ?w2 @ ys"
      "list_all (\<lambda>a. \<not> is_sleep a) ys"
      using dispatch_input_no_sleep by blast
    show ?thesis
    proof (cases "truthy ev")
      case True
      have "trace (snd (gpio_event p w)) =
          trace w @ (xs @ Info (GpioEvent p (the ev) (options st)) # ys)"
        using ge g Inr True ys(1) xs(1) by (simp add: log_info_def)
      moreover have
        "list_all (\<lambda>a. \<not> is_sleep a) (xs @ Info (GpioEvent p (the ev) (options st)) # ys)"
        using xs(2) ys(2) by simp
      ultimately show ?thesis by blast
    next
      case False
      with ge g Inr xs show ?thesis by simp
    qed
  qed
qed

lemma button_line_trace:
  "\<exists>xs. trace (snd (button_line p st lastv state w)) = trace w @ xs \<and>
     sleeps xs = (if is_edge st lastv state \<and> fst (button_line p st lastv state w) = Inr ()
                  then [of_int (bouncetime st) / 1000] else [])"
proof (cases "is_edge st lastv state")
  case False
  then show ?thesis by (simp add: button_line_def set_last_def)
next
  case True
  obtain r w1 where ge: "gpio_event p w = (r, w1)" by (cases "gpio_event p w")
  obtain xs where xs: "trace w1 = trace w @ xs" "list_all (\<lambda>a. \<not> is_sleep a) xs"
    using gpio_event_trace [of p w] ge by auto
  show ?thesis
  proof (cases r)
    case (Inl e)
    with True ge xs show ?thesis by (simp add: button_line_def sleeps_none)
  next
    case (Inr u)
    show ?thesis
    proof (cases "bouncetime st < 0")
      case neg: True
      with True ge xs Inr show ?thesis
        by (simp add: button_line_def sleep_def sleeps_none)
    next
      case False
      have "trace (snd (button_line p st lastv state w)) =
          trace w @ (xs @ [Sleep (of_int (bouncetime st) / 1000)])"
        using True ge xs Inr False by (simp add: button_line_def sleep_def set_last_def)
      moreover have "fst (button_line p st lastv state w) = Inr ()"
        using True ge xs Inr False by (simp add: button_line_def sleep_def set_last_def)
      moreover have "sleeps (xs @ [Sleep (of_int (bouncetime st) / 1000)]) =
          [of_int (bouncetime st) / 1000]"
        using xs(2) by (simp add: sleeps_append sleeps_none)
      ultimately show ?thesis using True by auto
    qed
  qed
qed





lemma poll_line_button:
  assumes "options st ''rotenc_id'' = None" and "gpio w (reads w) p = Inr state"
    and "last_states w p = Some lastv"
  shows "poll_line (p, st) w =
    button_line p st lastv state (w\<lparr>reads := Suc (reads w), trace := trace w @ [Input p]\<rparr>)"
  using assms by (simp add: poll_line_def GPIO_input_def)

lemma find_pin_rotenc_input [simp]:
  "find_pin_rotenc p (w\<lparr>reads := n, trace := t\<rparr>) = find_pin_rotenc p w"
  by (simp add: find_pin_rotenc_def)



section \<open>Rotary lines\<close>

lemma poll_line_sleeps:
  "sleeps (trace (snd (poll_line (p, st) w))) = sleeps (trace w) \<or>
   (options st ''rotenc_id'' = None \<and>
    sleeps (trace (snd (poll_line (p, st) w))) =
      sleeps (trace w) @ [of_int (bouncetime st) / 1000])"
proof (cases "options st ''rotenc_id''")
  case (Some rid)
  then show ?thesis by (simp add: poll_line_rotary_sleeps)
next
  case None
  let ?w1 = "w\<lparr>reads := Suc (reads w), trace := trace w @ [Input p]\<rparr>"
  show ?thesis
  proof (cases "gpio w (reads w) p")
    case (Inl e)
    then show ?thesis by (simp add: poll_line_def GPIO_input_def sleeps_append)
  next
    case (Inr state)
    show ?thesis
    proof (cases "last_states w p")
      case lst: None
      with Inr show ?thesis by (simp add: poll_line_def GPIO_input_def sleeps_append)
    next
      case (Some lastv)
      obtain xs where xs: "trace (snd (button_line p st lastv state ?w1)) = trace ?w1 @ xs"
        "sleeps xs = (if is_edge st lastv state \<and> fst (button_line p st lastv state ?w1) = Inr ()
                  then [of_int (bouncetime st) / 1000] else [])"
        using button_line_trace by blast
      have "poll_line (p, st) w = button_line p st lastv state ?w1"
        using None Inr Some by (simp add: poll_line_button)
      with xs None show ?thesis
        by (simp add: sleeps_append)
    qed
  qed
qed

lemma poll_pass_rotary_sleeps:
  "\<forall>l \<in> set ls. options (snd l) ''rotenc_id'' \<noteq> None \<Longrightarrow>
   sleeps (trace (snd (poll_pass ls w))) = sleeps (trace w)"
proof (induction ls arbitrary: w)
  case Nil
  then show ?case by simp
next
  case (Cons l ls)
  obtain p st where l: "l = (p, st)" by (cases l)
  obtain r w1 where pl: "poll_line (p, st) w = (r, w1)" by (cases "poll_line (p, st) w")
  have "sleeps (trace w1) = sleeps (trace w)"
    using poll_line_rotary_sleeps [of st p w] Cons.prems pl l by simp
  moreover have "sleeps (trace (snd (poll_pass ls w1))) = sleeps (trace w1)"
    using Cons by simp
  ultimately show ?case using l pl by (cases r) simp_all
qed

text \<open>
  C5. Polling a line that carries a \<open>rotenc_id\<close> adds no sleep to the trace, whatever
  the hardware reads, the encoder decodes and the handler does. Polling any line adds
  either no sleep or one sleep of the line's bounce time, and the latter only for a
  line without \<open>rotenc_id\<close>. A pass over rotary lines only adds no sleep at all.
\<close>

theorem rotary_line_never_debounced:
  "(options st ''rotenc_id'' \<noteq> None \<longrightarrow>
      sleeps (trace (snd (poll_line (p, st) w))) = sleeps (trace w)) \<and>
   (sleeps (trace (snd (poll_line (p, st) w))) = sleeps (trace w) \<or>
      (options st ''rotenc_id'' = None \<and>
       sleeps (trace (snd (poll_line (p, st) w))) =
         sleeps (trace w) @ [of_int (bouncetime st) / 1000])) \<and>
   ((\<forall>l \<in> set ls. options (snd l) ''rotenc_id'' \<noteq> None) \<longrightarrow>
      sleeps (trace (snd (poll_pass ls w))) = sleeps (trace w))"
  using poll_line_rotary_sleeps [of st p w] poll_line_sleeps [of p st w]
    poll_pass_rotary_sleeps [of ls w]
  by blast


lemma rotary_rig_dispatches: "dispatched (trace (snd (poll_pass (pin_settings rotary_rig) rotary_rig))) =
     [(''volume_up'', [''rotenc_id'' \<mapsto> PStr ''vol''])]"
  by (simp add: rotary_rig_def rotary_def poll_line_def GPIO_input_def rotary_line_def
      rotary_change_def get_event_def decode_def adjacency_def gray_cycle_def truthy_def
      log_info_def dispatch_input_def call_handler_def handler_of_def handle_volume_up_def
      get_step_def py_int_def Let_def set_last_def jazz_core_def)

theorem rotary_line_never_debounced_witness:
  "sleeps (trace (snd (poll_line (6, rotary ''volume_down'')
       (snd (poll_line (5, rotary ''volume_up'') rotary_rig))))) = [] \<and>
   sleeps (trace (snd (poll_pass (pin_settings rotary_rig) rotary_rig))) = [] \<and>
   dispatched (trace (snd (poll_pass (pin_settings rotary_rig) rotary_rig))) =
     [(''volume_up'', [''rotenc_id'' \<mapsto> PStr ''vol''])]"
  using rotary_line_never_debounced [of "rotary ''volume_down''" 6
      "snd (poll_line (5, rotary ''volume_up'') rotary_rig)" "pin_settings rotary_rig"]
    rotary_line_never_debounced [of "rotary ''volume_up''" 5 rotary_rig "pin_settings rotary_rig"]
    rotary_rig_dispatches
  by (simp add: rotary_rig_def rotary_def)

section \<open>The debounce wait\<close>





section \<open>A failed hardware read\<close>

lemma poll_pass_append:
  "poll_pass pre w = (Inr u, w1) \<Longrightarrow> poll_pass (pre @ ls) w = poll_pass ls w1"
proof (induction pre arbitrary: w)
  case Nil
  then show ?case by simp
next
  case (Cons l pre)
  obtain r w' where pl: "poll_line l w = (r, w')" by (cases "poll_line l w")
  with Cons show ?case by (cases r) simp_all
qed

lemma poll_loop_raise:
  assumes "\<not> stop_polling w (checks w)"
    and "poll_pass (pin_settings w) (w\<lparr>checks := Suc (checks w)\<rparr>) = (Inl e, w')"
  shows "poll_loop (Suc n) w = (Some (Inl e), w')"
  using assms by (simp add: Let_def)

lemma poll_loop_line_raise:
  assumes "\<not> stop_polling w (checks w)"
    and "pin_settings w = pre @ (p, st) # post"
    and "poll_pass pre (w\<lparr>checks := Suc (checks w)\<rparr>) = (Inr (), w1)"
    and "poll_line (p, st) w1 = (Inl e, w2)"
  shows "poll_loop (Suc n) w = (Some (Inl e), w2)"
proof -
  have "poll_pass (pin_settings w) (w\<lparr>checks := Suc (checks w)\<rparr>) = poll_pass ((p, st) # post) w1"
    using assms(2,3) poll_pass_append by simp
  also have "\<dots> = (Inl e, w2)" using assms(4) by simp
  finally show ?thesis using assms(1) by (simp add: poll_loop_raise)
qed

text \<open>
  C2, as the code has it. \<open>_poll_loop\<close> has no \<open>try\<close>: when the pass reaches a line
  whose read raises, the exception leaves the pass and the loop, which ends with it
  in this very iteration. Nothing is logged, the stored levels are those held when the
  line was reached (the line's own previous level is unchanged), and neither a later
  line nor a later pass is sampled.
\<close>

theorem failed_read_ends_loop:
  assumes "\<not> stop_polling w (checks w)"
    and "pin_settings w = pre @ (p, st) # post"
    and "poll_pass pre (w\<lparr>checks := Suc (checks w)\<rparr>) = (Inr (), w1)"
    and "gpio w1 (reads w1) p = Inl e"
  shows "poll_loop (Suc n) w =
      (Some (Inl e), w1\<lparr>reads := Suc (reads w1), trace := trace w1 @ [Input p]\<rparr>) \<and>
    last_states (snd (poll_loop (Suc n) w)) = last_states w1"
proof -
  have "poll_line (p, st) w1 =
      (Inl e, w1\<lparr>reads := Suc (reads w1), trace := trace w1 @ [Input p]\<rparr>)"
    using assms(4) by (simp add: poll_line_def GPIO_input_def)
  from poll_loop_line_raise [OF assms(1-3) this]
  show ?thesis by simp
qed

text \<open>
  Two button lines, the read of the first fails: the loop ends with the exception
  after one check of the stop event, and the second line is never sampled.
\<close>

theorem failed_read_counterexample:
  "fst (poll_loop 10 (flaky [(17, button ''play_pause'' ''active_low''),
                             (27, button ''next'' ''active_low'')])) =
     Some (Inl (OtherError ''read failed'')) \<and>
   trace (snd (poll_loop 10 (flaky [(17, button ''play_pause'' ''active_low''),
                                    (27, button ''next'' ''active_low'')]))) = [Input 17] \<and>
   checks (snd (poll_loop 10 (flaky [(17, button ''play_pause'' ''active_low''),
                                     (27, button ''next'' ''active_low'')]))) = 1"
  by (simp add: numeral_nat flaky_def rig_def button_def poll_line_def GPIO_input_def Let_def)

theorem failed_read_ends_loop_witness:
  "fst (poll_loop (Suc 4) (flaky [(27, button ''next'' ''active_low''),
                                  (17, button ''play_pause'' ''active_low'')])) =
     Some (Inl (OtherError ''read failed'')) \<and>
   trace (snd (poll_loop (Suc 4) (flaky [(27, button ''next'' ''active_low''),
                                  (17, button ''play_pause'' ''active_low'')]))) =
     [Input 27, Input 17] \<and>
   last_states (snd (poll_loop (Suc 4) (flaky [(27, button ''next'' ''active_low''),
                                  (17, button ''play_pause'' ''active_low'')]))) 17 = Some HIGH"
  using failed_read_ends_loop [of
      "flaky [(27, button ''next'' ''active_low''), (17, button ''play_pause'' ''active_low'')]"
      "[(27, button ''next'' ''active_low'')]" 17 "button ''play_pause'' ''active_low''" "[]"
      "snd (poll_pass [(27, button ''next'' ''active_low'')]
         ((flaky [(27, button ''next'' ''active_low''),
                  (17, button ''play_pause'' ''active_low'')])\<lparr>checks := Suc 0\<rparr>))"
      "OtherError ''read failed''" 4]
  by (simp add: flaky_def rig_def button_def poll_line_def GPIO_input_def Let_def
      button_line_def is_edge_def set_last_def)

section \<open>An event without handler\<close>

lemma dispatch_input_unmapped:
  "handler_of ev = None \<Longrightarrow>
   dispatch_input ev config w = (Inl (no_handler ev), w\<lparr>trace := trace w @ [Dispatch ev config]\<rparr>)"
  by (simp add: dispatch_input_def call_handler_def)

lemma map_of_middle:
  "distinct (map fst (pre @ (p, st) # post)) \<Longrightarrow> map_of (pre @ (p, st) # post) p = Some st"
  by (induction pre) auto

lemma wiring_after_pre:
  assumes "poll_pass pre (w\<lparr>checks := Suc (checks w)\<rparr>) = (r, w1)"
  shows "wiring w1 = wiring w"
proof -
  have "wiring w1 = wiring (w\<lparr>checks := Suc (checks w)\<rparr>)"
    using wiring_poll_pass [of pre "w\<lparr>checks := Suc (checks w)\<rparr>"] assms by simp
  then show ?thesis by (simp add: wiring_def)
qed

lemma get_event_needs_encoder:
  "get_event rid w = (Inr ev, w2) \<Longrightarrow> map_of (rot_encoders w) rid \<noteq> None"
  by (cases "map_of (rot_encoders w) rid") (simp_all add: get_event_def)

text \<open>
  C1, as the code has it. For every event name without handler, \<open>dispatch_input\<close>
  raises the \<open>RuntimeError\<close> that names the event; it logs nothing and sends nothing to
  the core. \<open>_poll_loop\<close> does not catch it: when the pass reaches a button line on its
  activating edge whose event has no handler, or a rotary line whose decoder gives
  such an event, the pass is left at that line and the loop ends with the error in this
  very iteration; the line's stored level is not updated, no later line and no later
  pass is sampled.
\<close>

theorem unmapped_event_ends_loop:
  assumes "handler_of ev = None" and "ev \<noteq> []"
    and "\<not> stop_polling w (checks w)"
    and "pin_settings w = pre @ (p, st) # post"
    and "distinct (map fst (pin_settings w))"
    and "poll_pass pre (w\<lparr>checks := Suc (checks w)\<rparr>) = (Inr (), w1)"
    and "gpio w1 (reads w1) p = Inr state" and "last_states w1 p = Some lastv"
  shows "dispatch_input ev config w' =
      (Inl (no_handler ev), w'\<lparr>trace := trace w' @ [Dispatch ev config]\<rparr>) \<and>
    (options st ''rotenc_id'' = None \<and> find_pin_rotenc p w = None \<and>
     is_edge st lastv state \<and> event st = ev \<longrightarrow>
       poll_loop (Suc n) w =
         (Some (Inl (no_handler ev)),
          w1\<lparr>reads := Suc (reads w1),
             trace := trace w1 @ [Input p, Info (GpioEvent p ev (options st)),
                                  Dispatch ev (options st)]\<rparr>)) \<and>
    (\<forall>rid w2. options st ''rotenc_id'' = Some rid \<and> state \<noteq> lastv \<and>
       get_event rid (w1\<lparr>reads := Suc (reads w1), trace := trace w1 @ [Input p]\<rparr>) =
         (Inr (Some ev), w2) \<longrightarrow>
       poll_loop (Suc n) w =
         (Some (Inl (no_handler ev)),
          w2\<lparr>trace := trace w2 @ [Info (RotaryEvent p ev), Dispatch ev (options st)]\<rparr>))"
proof (intro conjI impI allI)
  show "dispatch_input ev config w' =
      (Inl (no_handler ev), w'\<lparr>trace := trace w' @ [Dispatch ev config]\<rparr>)"
    using assms(1) by (rule dispatch_input_unmapped)
next
  let ?w1 = "w1\<lparr>reads := Suc (reads w1), trace := trace w1 @ [Input p]\<rparr>"
  assume b: "options st ''rotenc_id'' = None \<and> find_pin_rotenc p w = None \<and>
     is_edge st lastv state \<and> event st = ev"
  have wir: "wiring w1 = wiring w" using assms(6) by (rule wiring_after_pre)
  have ms: "map_of (pin_settings ?w1) p = Some st"
    using wiring_settings [OF wir] assms(4,5) map_of_middle [of pre p st post] by simp
  have fr: "find_pin_rotenc p ?w1 = None"
    using wiring_find [OF wir, of p] b by simp
  have "gpio_event p ?w1 =
      dispatch_input ev (options st) (log_info (GpioEvent p ev (options st)) ?w1)"
    using gpio_event_button [OF ms fr] b assms(2) by simp
  then have "poll_line (p, st) w1 =
      (Inl (no_handler ev),
       w1\<lparr>reads := Suc (reads w1),
          trace := trace w1 @ [Input p, Info (GpioEvent p ev (options st)),
                               Dispatch ev (options st)]\<rparr>)"
    using b assms(1,7,8)
    by (simp add: poll_line_def GPIO_input_def button_line_def dispatch_input_unmapped
        log_info_def)
  from poll_loop_line_raise [OF assms(3,4,6) this]
  show "poll_loop (Suc n) w =
         (Some (Inl (no_handler ev)),
          w1\<lparr>reads := Suc (reads w1),
             trace := trace w1 @ [Input p, Info (GpioEvent p ev (options st)),
                                  Dispatch ev (options st)]\<rparr>)" .
next
  fix rid w2
  let ?w1 = "w1\<lparr>reads := Suc (reads w1), trace := trace w1 @ [Input p]\<rparr>"
  assume r: "options st ''rotenc_id'' = Some rid \<and> state \<noteq> lastv \<and>
       get_event rid ?w1 = (Inr (Some ev), w2)"
  then have "map_of (rot_encoders ?w1) rid \<noteq> None"
    using get_event_needs_encoder by blast
  then obtain enc where enc: "map_of (rot_encoders ?w1) rid = Some enc" by blast
  have "rotary_change p st ?w1 =
      (Inl (no_handler ev),
       w2\<lparr>trace := trace w2 @ [Info (RotaryEvent p ev), Dispatch ev (options st)]\<rparr>)"
    using r enc assms(1,2)
    by (simp add: rotary_change_def truthy_def dispatch_input_unmapped log_info_def)
  then have "poll_line (p, st) w1 =
      (Inl (no_handler ev),
       w2\<lparr>trace := trace w2 @ [Info (RotaryEvent p ev), Dispatch ev (options st)]\<rparr>)"
    using r assms(7,8)
    by (simp add: poll_line_def GPIO_input_def rotary_line_def)
  from poll_loop_line_raise [OF assms(3,4,6) this]
  show "poll_loop (Suc n) w =
         (Some (Inl (no_handler ev)),
          w2\<lparr>trace := trace w2 @ [Info (RotaryEvent p ev), Dispatch ev (options st)]\<rparr>)" .
qed

text \<open>
  Two button lines, the first pressed and configured with the event \<open>bogus\<close>: the loop
  ends with the error after one check of the stop event; the second line is never
  sampled and the trace holds no log of a failure.
\<close>

theorem unmapped_event_counterexample:
  "handler_of ''bogus'' = None \<and>
   fst (poll_loop 10 (pressed [(17, button ''bogus'' ''active_low''),
                               (27, button ''next'' ''active_low'')])) =
     Some (Inl (RuntimeError ''Could not find input handler for event: bogus'')) \<and>
   trace (snd (poll_loop 10 (pressed [(17, button ''bogus'' ''active_low''),
                                      (27, button ''next'' ''active_low'')]))) =
     [Input 17, Info (GpioEvent 17 ''bogus'' Map.empty), Dispatch ''bogus'' Map.empty] \<and>
   checks (snd (poll_loop 10 (pressed [(17, button ''bogus'' ''active_low''),
                                       (27, button ''next'' ''active_low'')]))) = 1"
  by (simp add: numeral_nat pressed_def rig_def button_def poll_line_def GPIO_input_def Let_def
      button_line_def is_edge_def gpio_event_def find_pin_rotenc_def truthy_def log_info_def
      dispatch_input_def call_handler_def handler_of_def no_handler_def)

theorem unmapped_event_ends_loop_witness:
  "fst (poll_loop (Suc 4) (pressed [(27, button ''next'' ''active_low''),
                                    (17, button ''bogus'' ''active_low'')])) =
     Some (Inl (no_handler ''bogus'')) \<and>
   trace (snd (poll_loop (Suc 4) (pressed [(27, button ''next'' ''active_low''),
                                           (17, button ''bogus'' ''active_low'')]))) =
     [Input 27, Input 17, Info (GpioEvent 17 ''bogus'' Map.empty), Dispatch ''bogus'' Map.empty]"
  using unmapped_event_ends_loop [of "''bogus''"
      "pressed [(27, button ''next'' ''active_low''), (17, button ''bogus'' ''active_low'')]"
      "[(27, button ''next'' ''active_low'')]" 17 "button ''bogus'' ''active_low''" "[]"
      "snd (poll_pass [(27, button ''next'' ''active_low'')]
         ((pressed [(27, button ''next'' ''active_low''),
                    (17, button ''bogus'' ''active_low'')])\<lparr>checks := Suc 0\<rparr>))"
      LOW HIGH Map.empty
      "pressed [(27, button ''next'' ''active_low''), (17, button ''bogus'' ''active_low'')]" 4]
  by (simp add: pressed_def rig_def button_def poll_line_def GPIO_input_def Let_def
      button_line_def is_edge_def set_last_def handler_of_def find_pin_rotenc_def)

section \<open>The quadrature decoder\<close>

lemma decode_table:
  "decode (LOW, LOW) (LOW, HIGH) = Some Clockwise"
  "decode (LOW, HIGH) (HIGH, HIGH) = Some Clockwise"
  "decode (HIGH, HIGH) (HIGH, LOW) = Some Clockwise"
  "decode (HIGH, LOW) (LOW, LOW) = Some Clockwise"
  "decode (LOW, HIGH) (LOW, LOW) = Some CounterClockwise"
  "decode (HIGH, HIGH) (LOW, HIGH) = Some CounterClockwise"
  "decode (HIGH, LOW) (HIGH, HIGH) = Some CounterClockwise"
  "decode (LOW, LOW) (HIGH, LOW) = Some CounterClockwise"
  "decode (LOW, LOW) (HIGH, HIGH) = None"
  "decode (HIGH, HIGH) (LOW, LOW) = None"
  "decode (LOW, HIGH) (HIGH, LOW) = None"
  "decode (HIGH, LOW) (LOW, HIGH) = None"
  "decode (LOW, LOW) (LOW, LOW) = None"
  "decode (LOW, HIGH) (LOW, HIGH) = None"
  "decode (HIGH, HIGH) (HIGH, HIGH) = None"
  "decode (HIGH, LOW) (HIGH, LOW) = None"
  by (simp_all add: decode_def adjacency_def gray_cycle_def)

lemma decode_cases:
  "decode s (clockwise_of s) = Some Clockwise"
  "decode (clockwise_of s) s = Some CounterClockwise"
  "(decode s t = Some Clockwise) = (t = clockwise_of s)"
  "(decode s t = Some CounterClockwise) = (s = clockwise_of t)"
  "fst s \<noteq> fst t \<and> snd s \<noteq> snd t \<longrightarrow> decode s t = None"
  "decode s s = None"
proof -
  obtain a b where s: "s = (a, b)" by (cases s)
  obtain c d where t: "t = (c, d)" by (cases t)
  show "decode s (clockwise_of s) = Some Clockwise"
    unfolding s by (cases a; cases b) (simp_all add: decode_table)
  show "decode (clockwise_of s) s = Some CounterClockwise"
    unfolding s by (cases a; cases b) (simp_all add: decode_table)
  show "(decode s t = Some Clockwise) = (t = clockwise_of s)"
    unfolding s t by (cases a; cases b; cases c; cases d) (simp_all add: decode_table)
  show "(decode s t = Some CounterClockwise) = (s = clockwise_of t)"
    unfolding s t by (cases a; cases b; cases c; cases d) (simp_all add: decode_table)
  show "fst s \<noteq> fst t \<and> snd s \<noteq> snd t \<longrightarrow> decode s t = None"
    unfolding s t by (cases a; cases b; cases c; cases d) (simp_all add: decode_table)
  show "decode s s = None"
    unfolding s by (cases a; cases b) (simp_all add: decode_table)
qed

lemma map_of_store_encoder:
  "map_of es k = Some e0 \<Longrightarrow> map_of (store_encoder k e es) k = Some e"
  by (induction es) (auto split: if_splits)

lemma get_event_decodes:
  assumes "map_of (rot_encoders w) rid = Some enc"
    and "pins enc = [a, b]" and "events enc = [ea, eb]"
    and "gpio w (reads w) a = Inr la" and "gpio w (Suc (reads w)) b = Inr lb"
  shows "fst (get_event rid w) =
      Inr (case decode (quad enc) (la, lb) of None \<Rightarrow> None
           | Some Clockwise \<Rightarrow> Some ea | Some CounterClockwise \<Rightarrow> Some eb)"
    and "map_of (rot_encoders (snd (get_event rid w))) rid = Some (enc\<lparr>quad := (la, lb)\<rparr>)"
  using assms by (simp_all add: get_event_def GPIO_input_def map_of_store_encoder)

text \<open>
  C9, on the decoder as the spec describes it. From every state of the Gray cycle,
  the step to its clockwise successor decodes to one clockwise event and the step
  back to one counter-clockwise event; these are the only steps that decode to an
  event. A step that changes both bits, and no step at all, decode to no event.
  \<open>get_event\<close> gives the event of the phase-A line for a clockwise step, of the
  phase-B line for a counter-clockwise step, none when both bits changed, and keeps the
  sampled state in every case.
\<close>

theorem quadrature_decoder_adjacent_steps:
  "decode s (clockwise_of s) = Some Clockwise \<and>
   decode (clockwise_of s) s = Some CounterClockwise \<and>
   (decode s t = Some Clockwise) = (t = clockwise_of s) \<and>
   (decode s t = Some CounterClockwise) = (s = clockwise_of t) \<and>
   (fst s \<noteq> fst t \<and> snd s \<noteq> snd t \<longrightarrow> decode s t = None) \<and>
   decode s s = None \<and>
   (map_of (rot_encoders w) rid = Some enc \<and> pins enc = [a, b] \<and> events enc = [ea, eb] \<and>
    gpio w (reads w) a = Inr la \<and> gpio w (Suc (reads w)) b = Inr lb \<longrightarrow>
      ((la, lb) = clockwise_of (quad enc) \<longrightarrow> fst (get_event rid w) = Inr (Some ea)) \<and>
      (quad enc = clockwise_of (la, lb) \<longrightarrow> fst (get_event rid w) = Inr (Some eb)) \<and>
      (la \<noteq> fst (quad enc) \<and> lb \<noteq> snd (quad enc) \<longrightarrow> fst (get_event rid w) = Inr None) \<and>
      map_of (rot_encoders (snd (get_event rid w))) rid = Some (enc\<lparr>quad := (la, lb)\<rparr>))"
proof -
  have g: "map_of (rot_encoders w) rid = Some enc \<and> pins enc = [a, b] \<and> events enc = [ea, eb] \<and>
    gpio w (reads w) a = Inr la \<and> gpio w (Suc (reads w)) b = Inr lb \<longrightarrow>
      ((la, lb) = clockwise_of (quad enc) \<longrightarrow> fst (get_event rid w) = Inr (Some ea)) \<and>
      (quad enc = clockwise_of (la, lb) \<longrightarrow> fst (get_event rid w) = Inr (Some eb)) \<and>
      (la \<noteq> fst (quad enc) \<and> lb \<noteq> snd (quad enc) \<longrightarrow> fst (get_event rid w) = Inr None) \<and>
      map_of (rot_encoders (snd (get_event rid w))) rid = Some (enc\<lparr>quad := (la, lb)\<rparr>)"
  proof (intro impI conjI)
    assume h: "map_of (rot_encoders w) rid = Some enc \<and> pins enc = [a, b] \<and>
      events enc = [ea, eb] \<and> gpio w (reads w) a = Inr la \<and> gpio w (Suc (reads w)) b = Inr lb"
    then have ev: "fst (get_event rid w) =
      Inr (case decode (quad enc) (la, lb) of None \<Rightarrow> None
           | Some Clockwise \<Rightarrow> Some ea | Some CounterClockwise \<Rightarrow> Some eb)"
      using get_event_decodes(1) by blast
    show "map_of (rot_encoders (snd (get_event rid w))) rid = Some (enc\<lparr>quad := (la, lb)\<rparr>)"
      using h get_event_decodes(2) by blast
    {
      assume "(la, lb) = clockwise_of (quad enc)"
      then have "decode (quad enc) (la, lb) = Some Clockwise"
        by (simp add: decode_cases(3))
      then show "fst (get_event rid w) = Inr (Some ea)"
        using ev by simp
    }
    {
      assume "quad enc = clockwise_of (la, lb)"
      then have "decode (quad enc) (la, lb) = Some CounterClockwise"
        by (simp add: decode_cases(4))
      then show "fst (get_event rid w) = Inr (Some eb)"
        using ev by simp
    }
    {
      assume "la \<noteq> fst (quad enc) \<and> lb \<noteq> snd (quad enc)"
      then have "decode (quad enc) (la, lb) = None"
        using decode_cases(5) by (metis fst_conv snd_conv)
      then show "fst (get_event rid w) = Inr None"
        using ev by simp
    }
  qed
  show ?thesis
    using decode_cases(1,2,6) [of s] decode_cases(3,4,5) [of s t] g by blast
qed

theorem quadrature_decoder_adjacent_steps_witness:
  "decode (LOW, LOW) (HIGH, HIGH) = None \<and>
   decode_run (LOW, LOW) [(LOW, HIGH), (HIGH, HIGH), (HIGH, LOW), (LOW, LOW)] =
     [Some Clockwise, Some Clockwise, Some Clockwise, Some Clockwise] \<and>
   decode_run (LOW, LOW) [(HIGH, LOW), (HIGH, HIGH), (LOW, HIGH), (LOW, LOW)] =
     [Some CounterClockwise, Some CounterClockwise, Some CounterClockwise,
      Some CounterClockwise] \<and>
   decode_run (LOW, LOW) [(HIGH, HIGH), (HIGH, LOW)] = [None, Some Clockwise] \<and>
   fst (get_event (PStr ''vol'') rotary_rig) = Inr (Some ''volume_up'')"
  using quadrature_decoder_adjacent_steps [of "(LOW, LOW)" "(HIGH, HIGH)" rotary_rig
      "PStr ''vol''"
      "\<lparr>pins = [5, 6], events = [''volume_up'', ''volume_down''], quad = (LOW, LOW)\<rparr>"
      5 6 "''volume_up''" "''volume_down''" LOW HIGH]
  by (simp add: rotary_rig_def decode_table)

end
